theory Spec2Isabelle
  imports Main "HOL-Library.Product_Lexorder"
begin

section \<open>Nested-set trees in a relational table: the tree manager of mptt/managers.py\<close>

text \<open>
  The development embeds \<^verbatim>\<open>TreeManager\<close> of \<^verbatim>\<open>src/mptt/managers.py\<close>.
  A leading underscore of a Python name is dropped (\<^verbatim>\<open>_manage_space\<close> is
  \<open>manage_space\<close>), since an Isabelle name starts with a letter.

  \<^item> The database table is the list of its rows, in storage order. An SQL
    \<^verbatim>\<open>UPDATE ... SET c = e WHERE p\<close> is a \<open>map\<close> over the rows: every
    expression \<open>e\<close> reads the values the row had before the statement.
  \<^item> Integers are Python's unbounded integers: \<open>int\<close>.
  \<^item> An exception is a value of type \<open>error\<close>. A function that can raise returns an
    \<open>outcome\<close>: \<open>Inr s\<close> is a normal return with the state \<open>s\<close>, and
    \<open>Inl (e, s)\<close> is the exception \<open>e\<close> raised in the state \<open>s\<close> that the
    function had reached, so that a write made before a \<^verbatim>\<open>raise\<close> stays visible.
\<close>

subsection \<open>Rows, in-memory instances and the manager's state\<close>

text \<open>
  One row of the tree table. \<open>parent\<close> is the foreign key (the parent's primary key),
  \<open>okey\<close> stands for the value the model's \<^verbatim>\<open>order_insertion_by\<close> fields sort a
  row by. \<open>pk\<close> is \<open>None\<close> on an object that has not been saved.
\<close>

record node =
  pk :: "int option"
  parent :: "int option"
  lft :: int
  rght :: int
  level :: int
  tree_id :: int
  okey :: int

text \<open>
  A Python model instance: its attributes and the parent object its foreign-key cache
  holds, if one is loaded (\<^verbatim>\<open>cached_field_value(instance, parent_attr)\<close>).
\<close>

datatype obj = Obj (attrs: node) (parent_cache: "obj option")

datatype error =
    InvalidMove string
  | ValueError string
  | RuntimeError string int
  | AttributeError string
  | CantDisableUpdates string

type_synonym 'a outcome = "(error \<times> 'a) + 'a"

text \<open>
  \<^verbatim>\<open>model._mptt_meta\<close> and \<^verbatim>\<open>model._meta\<close>, as far as the manager reads them.
  \<open>order_insertion_by\<close> tells whether the model declares sort fields at all;
  \<open>uuid4\<close> and \<open>tree_id_default\<close> are the two generators of tree ids used when root
  ordering is off (\<^verbatim>\<open>uuid.uuid4()\<close> in \<^verbatim>\<open>rebuild\<close>, the tree-id field's
  \<^verbatim>\<open>default()\<close> in \<^verbatim>\<open>_get_next_tree_id\<close>): the \<open>n\<close>-th value generated in a run
  of the program is \<open>uuid4 n\<close>.
\<close>

record mptt_meta =
  root_node_ordering :: bool
  order_insertion_by :: bool
  is_abstract :: bool
  is_proxy :: bool
  owns_tree_fields :: bool
  uuid4 :: "nat \<Rightarrow> int"
  tree_id_default :: "nat \<Rightarrow> int"

text \<open>
  The state the manager works on: the table, the two class-level flags of the model
  (\<^verbatim>\<open>_mptt_updates_enabled\<close>, and the tracking set, \<open>None\<close> when
  \<^verbatim>\<open>_mptt_is_tracking\<close> is false), and how many generated ids have been drawn.
  \<open>rebuild_calls\<close> is an observation log, not program state: \<open>partial_rebuild\<close>
  appends the tree id it is called with, so that a theorem can say which calls were made.
\<close>

record mptt_state =
  table :: "node list"
  mptt_updates_enabled :: bool
  mptt_tracking :: "int list option"
  drawn :: nat
  rebuild_calls :: "int list"

subsection \<open>The tracking hooks of the model class\<close>

text \<open>
  Modelled from the spec: \<^verbatim>\<open>_mptt_is_tracking\<close>, \<^verbatim>\<open>_mptt_start_tracking\<close>,
  \<^verbatim>\<open>_mptt_stop_tracking\<close>, \<^verbatim>\<open>_mptt_track_tree_modified\<close> and
  \<^verbatim>\<open>_mptt_track_tree_insertions\<close> live in mptt/models.py, which is not part of the
  sources. The spec (4.5): the scope "records the tree_id of every node inserted and every
  tree touched by a would-be space operation" and rebuilds "once per distinct recorded
  tree_id". The recorded set is a list here; \<open>mptt_stop_tracking\<close> hands out its distinct
  elements.
\<close>

definition mptt_is_tracking :: "mptt_state \<Rightarrow> bool" where
  "mptt_is_tracking st = (mptt_tracking st \<noteq> None)"



definition mptt_track_tree_modified :: "int \<Rightarrow> mptt_state \<Rightarrow> mptt_state" where
  "mptt_track_tree_modified tid st =
     (case mptt_tracking st of
        None \<Rightarrow> st
      | Some ids \<Rightarrow> st\<lparr>mptt_tracking := Some (ids @ [tid])\<rparr>)"

definition mptt_track_tree_insertions :: "int \<Rightarrow> int \<Rightarrow> mptt_state \<Rightarrow> mptt_state" where
  "mptt_track_tree_insertions tid num_inserted st =
     (case mptt_tracking st of
        None \<Rightarrow> st
      | Some ids \<Rightarrow>
          st\<lparr>mptt_tracking :=
               Some (map (\<lambda>e. if e \<ge> tid then e + num_inserted else e) ids)\<rparr>)"

subsection \<open>SpaceManager: \<^verbatim>\<open>_manage_space\<close>, \<^verbatim>\<open>_create_space\<close>, \<^verbatim>\<open>_close_gap\<close>\<close>

text \<open>
  \<^verbatim>\<open>clean_tree_ids\<close> (mptt/utils.py, not part of the sources) adapts a tree id to the
  database driver's parameter format; on the value of the id it is the identity, and the
  embedding passes tree ids through unchanged.

  The statement run by \<^verbatim>\<open>_manage_space\<close>:
  \<^verbatim>\<open>
  UPDATE t SET left  = CASE WHEN left  > target THEN left  + size ELSE left  END,
               right = CASE WHEN right > target THEN right + size ELSE right END
  WHERE tree_id = tid AND (left > target OR right > target)
  \<close>
\<close>

definition space_query :: "int \<Rightarrow> int \<Rightarrow> int \<Rightarrow> node list \<Rightarrow> node list" where
  "space_query sz target tid rows =
     map (\<lambda>r. if tree_id r = tid \<and> (lft r > target \<or> rght r > target)
               then r\<lparr>lft := (if lft r > target then lft r + sz else lft r),
                      rght := (if rght r > target then rght r + sz else rght r)\<rparr>
               else r) rows"

definition manage_space :: "int \<Rightarrow> int \<Rightarrow> int \<Rightarrow> mptt_state \<Rightarrow> mptt_state" where
  "manage_space sz target tid st =
     (if mptt_is_tracking st then mptt_track_tree_modified tid st
      else st\<lparr>table := space_query sz target tid (table st)\<rparr>)"

definition close_gap :: "int \<Rightarrow> int \<Rightarrow> int \<Rightarrow> mptt_state \<Rightarrow> mptt_state" where
  "close_gap sz target tid st = manage_space (- sz) target tid st"

definition create_space :: "int \<Rightarrow> int \<Rightarrow> int \<Rightarrow> mptt_state \<Rightarrow> mptt_state" where
  "create_space sz target tid st = manage_space sz target tid st"

text \<open>
  The update as the specification words it (4.1), row by row: in the tree \<open>tid\<close>, a left
  value above \<open>target\<close> grows by \<open>sz\<close>, a right value above \<open>target\<close> grows by
  \<open>sz\<close>; nothing else changes.
\<close>

definition spec_shift :: "int \<Rightarrow> int \<Rightarrow> int \<Rightarrow> node \<Rightarrow> node" where
  "spec_shift sz target tid r =
     \<lparr>pk = pk r, parent = parent r,
      lft = (if tree_id r = tid \<and> lft r > target then lft r + sz else lft r),
      rght = (if tree_id r = tid \<and> rght r > target then rght r + sz else rght r),
      level = level r, tree_id = tree_id r, okey = okey r\<rparr>"

subsection \<open>What the manager uses of a model instance\<close>

text \<open>
  Modelled from the spec: \<^verbatim>\<open>is_root_node\<close> and \<^verbatim>\<open>is_child_node\<close> are methods of
  the model class (mptt/models.py, not part of the sources). The spec (3): the root of a
  tree is the node with a null parent.
\<close>

definition is_root_node :: "obj \<Rightarrow> bool" where
  "is_root_node n = (parent (attrs n) = None)"

definition is_child_node :: "obj \<Rightarrow> bool" where
  "is_child_node n = (\<not> is_root_node n)"

text \<open>
  \<^verbatim>\<open>node == target\<close> on model instances compares primary keys; an instance without a
  primary key is equal to itself only.
\<close>

definition obj_eq :: "obj \<Rightarrow> obj \<Rightarrow> bool" where
  "obj_eq a b = (case pk (attrs a) of None \<Rightarrow> a = b | Some k \<Rightarrow> pk (attrs b) = Some k)"

text \<open>
  \<^verbatim>\<open>getattr(target, parent_attr)\<close>: no object for a null foreign key, the cached parent
  object when one is loaded, otherwise the row the key points to, read from the table.
  \<^verbatim>\<open>setattr(node, parent_attr, p)\<close> stores the key and caches the object.
\<close>

definition get_parent :: "node list \<Rightarrow> obj \<Rightarrow> obj option" where
  "get_parent rows n =
     (case parent (attrs n) of
        None \<Rightarrow> None
      | Some k \<Rightarrow>
          (case parent_cache n of
             Some p \<Rightarrow> Some p
           | None \<Rightarrow> map_option (\<lambda>r. Obj r None) (find (\<lambda>r. pk r = Some k) rows)))"

definition set_parent :: "obj option \<Rightarrow> obj \<Rightarrow> obj" where
  "set_parent p n =
     Obj ((attrs n)\<lparr>parent := (case p of None \<Rightarrow> None | Some q \<Rightarrow> pk (attrs q))\<rparr>) p"

definition set_attrs :: "(node \<Rightarrow> node) \<Rightarrow> obj \<Rightarrow> obj" where
  "set_attrs f n = Obj (f (attrs n)) (parent_cache n)"

text \<open>
  The methods of the model class that the manager calls and that are not part of the
  sources are parameters of the embedding: \<^verbatim>\<open>node.get_descendant_count()\<close>,
  \<^verbatim>\<open>target.get_previous_sibling()\<close>, \<^verbatim>\<open>target.get_next_sibling()\<close>,
  \<^verbatim>\<open>target._mptt_refresh()\<close> and \<^verbatim>\<open>node.save()\<close>.
\<close>

record model_methods =
  get_descendant_count :: "obj \<Rightarrow> int"
  get_previous_sibling :: "mptt_state \<Rightarrow> obj \<Rightarrow> obj option"
  get_next_sibling :: "mptt_state \<Rightarrow> obj \<Rightarrow> obj option"
  mptt_refresh :: "mptt_state \<Rightarrow> obj \<Rightarrow> obj"
  save :: "obj \<Rightarrow> mptt_state \<Rightarrow> (obj \<times> mptt_state) outcome"

subsection \<open>MoveEngine: derived quantities\<close>

definition invalid_position :: "string \<Rightarrow> error" where
  "invalid_position position = ValueError (''An invalid position was given: '' @ position @ ''.'')"

definition calculate_inter_tree_move_values ::
  "model_methods \<Rightarrow> node list \<Rightarrow> obj \<Rightarrow> obj \<Rightarrow> string
     \<Rightarrow> error + (int \<times> int \<times> int \<times> obj option \<times> int)" where
  "calculate_inter_tree_move_values mm rows node target position =
     (let left = lft (attrs node);
          lvl = level (attrs node);
          target_left = lft (attrs target);
          target_right = rght (attrs target);
          target_level = level (attrs target);
          finish = (\<lambda>space_target level_change parent.
             let left_right_change = left - space_target - 1;
                 right_shift = (if parent \<noteq> None
                                then 2 * (get_descendant_count mm node + 1) else 0)
             in Inr (space_target, level_change, left_right_change, parent, right_shift))
      in if position = ''last-child'' \<or> position = ''first-child'' then
           finish (if position = ''last-child'' then target_right - 1 else target_left)
                  (lvl - target_level - 1)
                  (Some target)
         else if position = ''left'' \<or> position = ''right'' then
           finish (if position = ''left'' then target_left - 1 else target_right)
                  (lvl - target_level)
                  (get_parent rows target)
         else Inl (invalid_position position))"

text \<open>
  \<^verbatim>\<open>_post_insert_update_cached_parent_right\<close>: adds \<open>right_shift\<close> to the cached right
  value of \<open>instance\<close> and of every cached ancestor above it; an ancestor that is already
  in \<open>seen\<close> raises \<^verbatim>\<open>InvalidMove\<close>. The result is the instance with its updated chain
  of cached parents, also when the exception is raised part of the way up.
\<close>

fun post_insert_update_cached_parent_right ::
  "obj \<Rightarrow> int \<Rightarrow> obj list \<Rightarrow> (error \<times> obj) + obj" where
  "post_insert_update_cached_parent_right (Obj a None) right_shift seen =
     Inr (Obj (a\<lparr>rght := rght a + right_shift\<rparr>) None)"
| "post_insert_update_cached_parent_right (Obj a (Some p)) right_shift seen =
     (let a' = a\<lparr>rght := rght a + right_shift\<rparr>;
          seen' = seen @ [Obj a' (Some p)]
      in if list_ex (\<lambda>s. obj_eq p s) seen' then Inl (InvalidMove [], Obj a' (Some p))
         else (case post_insert_update_cached_parent_right p right_shift seen' of
                 Inl (e, p') \<Rightarrow> Inl (e, Obj a' (Some p'))
               | Inr p' \<Rightarrow> Inr (Obj a' (Some p'))))"

subsection \<open>SpaceManager: tree ids\<close>

text \<open>
  \<^verbatim>\<open>_create_tree_space\<close>:
  \<^verbatim>\<open>UPDATE t SET tree_id = tree_id + num_trees WHERE tree_id > target_tree_id\<close>,
  then the tracking hook.
\<close>

definition create_tree_space :: "int \<Rightarrow> int \<Rightarrow> mptt_state \<Rightarrow> mptt_state" where
  "create_tree_space target_tree_id num_trees st =
     mptt_track_tree_insertions (target_tree_id + 1) num_trees
       (st\<lparr>table := map (\<lambda>r. if tree_id r > target_tree_id
                               then r\<lparr>tree_id := tree_id r + num_trees\<rparr> else r) (table st)\<rparr>)"

text \<open>
  \<^verbatim>\<open>_get_next_tree_id\<close>: the field's generated default when root ordering is off,
  otherwise \<^verbatim>\<open>(max_tree_id or 0) + 1\<close>, the aggregate being \<^verbatim>\<open>None\<close> on an empty
  table.
\<close>

definition get_next_tree_id :: "mptt_meta \<Rightarrow> mptt_state \<Rightarrow> int \<times> mptt_state" where
  "get_next_tree_id meta st =
     (if \<not> root_node_ordering meta
      then (tree_id_default meta (drawn st), st\<lparr>drawn := Suc (drawn st)\<rparr>)
      else ((case map tree_id (table st) of [] \<Rightarrow> 0 | t # ts \<Rightarrow> fold max ts t) + 1, st))"

subsection \<open>MoveEngine: the moves\<close>

text \<open>
  \<^verbatim>\<open>_inter_tree_move_and_close_gap\<close> runs, with \<open>left\<close>, \<open>right\<close> and the tree id read
  from \<open>node\<close>, \<open>gap_size = right - left + 1\<close> and \<open>gap_target_left = left - 1\<close>:
  \<^verbatim>\<open>
  UPDATE t SET
    level   = CASE WHEN left >= l AND left <= r THEN level - level_change ELSE level END,
    tree_id = CASE WHEN left >= l AND left <= r THEN new_tree_id ELSE tree_id END,
    left    = CASE WHEN left >= l AND left <= r THEN left - left_right_change
                   WHEN left > gap_target_left THEN left - gap_size ELSE left END,
    right   = CASE WHEN right >= l AND right <= r THEN right - left_right_change
                   WHEN right > gap_target_left THEN right - gap_size ELSE right END
  WHERE tree_id = current_tree_id
  \<close>
\<close>

definition inter_tree_move_and_close_gap ::
  "obj \<Rightarrow> int \<Rightarrow> int \<Rightarrow> int \<Rightarrow> mptt_state \<Rightarrow> mptt_state" where
  "inter_tree_move_and_close_gap node level_change left_right_change new_tree_id st =
     (let left = lft (attrs node);
          right = rght (attrs node);
          gap_size = right - left + 1;
          gap_target_left = left - 1;
          current_tree_id = tree_id (attrs node)
      in st\<lparr>table := map (\<lambda>r.
           if tree_id r = current_tree_id then
             r\<lparr>level := (if lft r \<ge> left \<and> lft r \<le> right then level r - level_change
                          else level r),
               tree_id := (if lft r \<ge> left \<and> lft r \<le> right then new_tree_id
                           else tree_id r),
               lft := (if lft r \<ge> left \<and> lft r \<le> right then lft r - left_right_change
                       else if lft r > gap_target_left then lft r - gap_size
                       else lft r),
               rght := (if rght r \<ge> left \<and> rght r \<le> right then rght r - left_right_change
                        else if rght r > gap_target_left then rght r - gap_size
                        else rght r)\<rparr>
           else r) (table st)\<rparr>)"

text \<open>
  \<^verbatim>\<open>_make_child_root_node(node, new_tree_id=None)\<close>; \<^verbatim>\<open>not new_tree_id\<close> holds for
  \<^verbatim>\<open>None\<close> and for 0.
\<close>

definition make_child_root_node ::
  "mptt_meta \<Rightarrow> obj \<Rightarrow> int option \<Rightarrow> mptt_state \<Rightarrow> obj \<times> mptt_state" where
  "make_child_root_node meta node new_tree_id st =
     (let left = lft (attrs node);
          right = rght (attrs node);
          lvl = level (attrs node);
          (new_tree_id, st1) =
             (if new_tree_id = None \<or> new_tree_id = Some 0 then get_next_tree_id meta st
              else (the new_tree_id, st));
          left_right_change = left - 1;
          st2 = inter_tree_move_and_close_gap node lvl left_right_change new_tree_id st1
      in (set_parent None
            (set_attrs (\<lambda>a. a\<lparr>lft := left - left_right_change,
                                rght := right - left_right_change,
                                level := 0,
                                tree_id := new_tree_id\<rparr>) node),
          st2))"

text \<open>
  \<^verbatim>\<open>_make_sibling_of_root_node\<close>. A root node changes place among the roots by
  \<^verbatim>\<open>
  UPDATE t SET tree_id = CASE WHEN tree_id = tid THEN new_tree_id ELSE tree_id + shift END
  WHERE tree_id >= lower_bound AND tree_id <= upper_bound
  \<close>
  A sibling lookup that finds nothing returns \<^verbatim>\<open>None\<close>, which is equal to no node and
  whose tree id cannot be read (\<^verbatim>\<open>AttributeError\<close>).
\<close>

definition root_sibling_query ::
  "int \<Rightarrow> int \<Rightarrow> int \<Rightarrow> int \<Rightarrow> int \<Rightarrow> node list \<Rightarrow> node list" where
  "root_sibling_query tid new_tree_id shift lower_bound upper_bound rows =
     map (\<lambda>r. if tree_id r \<ge> lower_bound \<and> tree_id r \<le> upper_bound
               then r\<lparr>tree_id := (if tree_id r = tid then new_tree_id else tree_id r + shift)\<rparr>
               else r) rows"

definition make_sibling_of_root_node ::
  "model_methods \<Rightarrow> mptt_meta \<Rightarrow> obj \<Rightarrow> obj \<Rightarrow> string \<Rightarrow> mptt_state
     \<Rightarrow> (obj \<times> mptt_state) outcome" where
  "make_sibling_of_root_node mm meta node target position st =
     (if obj_eq node target
      then Inl (InvalidMove ''A node may not be made a sibling of itself.'', (node, st))
      else
        let tid = tree_id (attrs node);
            target_tree_id = tree_id (attrs target)
        in if is_child_node node then
             (if position = ''left'' \<or> position = ''right'' then
                let space_target = (if position = ''left'' then target_tree_id - 1
                                    else target_tree_id);
                    new_tree_id = (if position = ''left'' then target_tree_id
                                   else target_tree_id + 1);
                    st1 = create_tree_space space_target 1 st;
                    node1 = (if tid > space_target
                             then set_attrs (\<lambda>a. a\<lparr>tree_id := tid + 1\<rparr>) node else node)
                in Inr (make_child_root_node meta node1 (Some new_tree_id) st1)
              else Inl (invalid_position position, (node, st)))
           else
             let finish = (\<lambda>new_tree_id lower_bound upper_bound shift.
                   Inr (set_attrs (\<lambda>a. a\<lparr>tree_id := new_tree_id\<rparr>) node,
                        st\<lparr>table := root_sibling_query tid new_tree_id shift
                                        lower_bound upper_bound (table st)\<rparr>))
             in if position = ''left'' then
                  (if target_tree_id > tid then
                     (case get_previous_sibling mm st target of
                        None \<Rightarrow> Inl (AttributeError ''NoneType'', (node, st))
                      | Some left_sibling \<Rightarrow>
                          if obj_eq node left_sibling then Inr (node, st)
                          else finish (tree_id (attrs left_sibling)) tid
                                 (tree_id (attrs left_sibling)) (- 1))
                   else finish target_tree_id target_tree_id tid 1)
                else if position = ''right'' then
                  (if target_tree_id > tid then
                     finish target_tree_id tid target_tree_id (- 1)
                   else
                     (case get_next_sibling mm st target of
                        None \<Rightarrow> Inl (AttributeError ''NoneType'', (node, st))
                      | Some right_sibling \<Rightarrow>
                          if obj_eq node right_sibling then Inr (node, st)
                          else finish (tree_id (attrs right_sibling))
                                 (tree_id (attrs right_sibling)) tid 1))
                else Inl (invalid_position position, (node, st)))"

text \<open>
  \<^verbatim>\<open>_move_child_within_tree\<close> runs
  \<^verbatim>\<open>
  UPDATE t SET
    level = CASE WHEN left >= l AND left <= r THEN level - level_change ELSE level END,
    left  = CASE WHEN left >= l AND left <= r THEN left + left_right_change
                 WHEN left >= left_boundary AND left <= right_boundary THEN left + gap_size
                 ELSE left END,
    right = CASE WHEN right >= l AND right <= r THEN right + left_right_change
                 WHEN right >= left_boundary AND right <= right_boundary THEN right + gap_size
                 ELSE right END
  WHERE tree_id = tid
  \<close>
  The last statement of each move, \<^verbatim>\<open>node._mptt_cached_fields[parent_attr] = parent.pk\<close>,
  reads \<^verbatim>\<open>parent.pk\<close>: it raises \<^verbatim>\<open>AttributeError\<close> when \<open>parent\<close> is
  \<^verbatim>\<open>None\<close>, after the table has been written.
\<close>

definition move_subtree_query ::
  "int \<Rightarrow> int \<Rightarrow> int \<Rightarrow> int \<Rightarrow> int \<Rightarrow> int \<Rightarrow> int \<Rightarrow> int \<Rightarrow> node list \<Rightarrow> node list" where
  "move_subtree_query left right level_change left_right_change left_boundary right_boundary
                      gap_size tid rows =
     map (\<lambda>r. if tree_id r = tid then
                 r\<lparr>level := (if lft r \<ge> left \<and> lft r \<le> right then level r - level_change
                              else level r),
                   lft := (if lft r \<ge> left \<and> lft r \<le> right then lft r + left_right_change
                           else if lft r \<ge> left_boundary \<and> lft r \<le> right_boundary
                           then lft r + gap_size
                           else lft r),
                   rght := (if rght r \<ge> left \<and> rght r \<le> right then rght r + left_right_change
                            else if rght r \<ge> left_boundary \<and> rght r \<le> right_boundary
                            then rght r + gap_size
                            else rght r)\<rparr>
               else r) rows"

definition move_child_within_tree ::
  "obj \<Rightarrow> obj \<Rightarrow> string \<Rightarrow> mptt_state \<Rightarrow> (obj \<times> mptt_state) outcome" where
  "move_child_within_tree node target position st =
     (let left = lft (attrs node);
          right = rght (attrs node);
          lvl = level (attrs node);
          width = right - left + 1;
          tid = tree_id (attrs node);
          target_left = lft (attrs target);
          target_right = rght (attrs target);
          target_level = level (attrs target);
          finish = (\<lambda>new_left new_right level_change parent.
             let left_boundary = min left new_left;
                 right_boundary = max right new_right;
                 left_right_change = new_left - left;
                 gap_size = (if left_right_change > 0 then - width else width);
                 st' = st\<lparr>table := move_subtree_query left right level_change
                                      left_right_change left_boundary right_boundary
                                      gap_size tid (table st)\<rparr>;
                 node' = set_parent parent
                           (set_attrs (\<lambda>a. a\<lparr>lft := new_left, rght := new_right,
                                               level := lvl - level_change\<rparr>) node)
             in (case parent of
                   None \<Rightarrow> Inl (AttributeError ''NoneType'', (node', st'))
                 | Some p \<Rightarrow> Inr (node', st')))
      in if position = ''last-child'' \<or> position = ''first-child'' then
           (if obj_eq node target
            then Inl (InvalidMove ''A node may not be made a child of itself.'', (node, st))
            else if left < target_left \<and> target_left < right
            then Inl (InvalidMove ''A node may not be made a child of any of its descendants.'',
                      (node, st))
            else
              (if position = ''last-child'' then
                 (if target_right > right
                  then finish (target_right - width) (target_right - 1)
                  else finish target_right (target_right + width - 1))
               else
                 (if target_left > left
                  then finish (target_left - width + 1) target_left
                  else finish (target_left + 1) (target_left + width)))
                (lvl - target_level - 1) (Some target))
         else if position = ''left'' \<or> position = ''right'' then
           (if obj_eq node target
            then Inl (InvalidMove ''A node may not be made a sibling of itself.'', (node, st))
            else if left < target_left \<and> target_left < right
            then Inl (InvalidMove ''A node may not be made a sibling of any of its descendants.'',
                      (node, st))
            else
              (if position = ''left'' then
                 (if target_left > left
                  then finish (target_left - width) (target_left - 1)
                  else finish target_left (target_left + width - 1))
               else
                 (if target_right > right
                  then finish (target_right - width + 1) target_right
                  else finish (target_right + 1) (target_right + width)))
                (lvl - target_level) (get_parent (table st) target))
         else Inl (invalid_position position, (node, st)))"

definition move_child_to_new_tree ::
  "model_methods \<Rightarrow> obj \<Rightarrow> obj \<Rightarrow> string \<Rightarrow> mptt_state \<Rightarrow> (obj \<times> mptt_state) outcome" where
  "move_child_to_new_tree mm node target position st =
     (let left = lft (attrs node);
          right = rght (attrs node);
          lvl = level (attrs node);
          new_tree_id = tree_id (attrs target)
      in case calculate_inter_tree_move_values mm (table st) node target position of
           Inl e \<Rightarrow> Inl (e, (node, st))
         | Inr (space_target, level_change, left_right_change, new_parent, new_parent_right) \<Rightarrow>
             let tree_width = right - left + 1;
                 st1 = create_space tree_width space_target new_tree_id st;
                 st2 = inter_tree_move_and_close_gap node level_change left_right_change
                         new_tree_id st1;
                 node' = set_parent new_parent
                           (set_attrs (\<lambda>a. a\<lparr>lft := left - left_right_change,
                                               rght := right - left_right_change,
                                               level := lvl - level_change,
                                               tree_id := new_tree_id\<rparr>) node)
             in (case new_parent of
                   None \<Rightarrow> Inl (AttributeError ''NoneType'', (node', st2))
                 | Some p \<Rightarrow> Inr (node', st2)))"

definition move_child_node ::
  "model_methods \<Rightarrow> obj \<Rightarrow> obj \<Rightarrow> string \<Rightarrow> mptt_state \<Rightarrow> (obj \<times> mptt_state) outcome" where
  "move_child_node mm node target position st =
     (if tree_id (attrs node) = tree_id (attrs target)
      then move_child_within_tree node target position st
      else move_child_to_new_tree mm node target position st)"

text \<open>
  \<^verbatim>\<open>_move_root_node\<close> opens the space and runs
  \<^verbatim>\<open>
  UPDATE t SET level = level - level_change, left = left - left_right_change,
               right = right - left_right_change, tree_id = new_tree_id
  WHERE left >= l AND left <= r AND tree_id = tid
  \<close>
\<close>

definition move_tree_query ::
  "int \<Rightarrow> int \<Rightarrow> int \<Rightarrow> int \<Rightarrow> int \<Rightarrow> int \<Rightarrow> node list \<Rightarrow> node list" where
  "move_tree_query level_change left_right_change new_tree_id left right tid rows =
     map (\<lambda>r. if lft r \<ge> left \<and> lft r \<le> right \<and> tree_id r = tid
               then r\<lparr>level := level r - level_change,
                      lft := lft r - left_right_change,
                      rght := rght r - left_right_change,
                      tree_id := new_tree_id\<rparr>
               else r) rows"

definition move_root_node ::
  "model_methods \<Rightarrow> obj \<Rightarrow> obj \<Rightarrow> string \<Rightarrow> mptt_state \<Rightarrow> (obj \<times> mptt_state) outcome" where
  "move_root_node mm node target position st =
     (let left = lft (attrs node);
          right = rght (attrs node);
          lvl = level (attrs node);
          tid = tree_id (attrs node);
          new_tree_id = tree_id (attrs target);
          width = right - left + 1
      in if obj_eq node target
         then Inl (InvalidMove ''A node may not be made a child of itself.'', (node, st))
         else if tid = new_tree_id
         then Inl (InvalidMove ''A node may not be made a child of any of its descendants.'',
                   (node, st))
         else
           (case calculate_inter_tree_move_values mm (table st) node target position of
              Inl e \<Rightarrow> Inl (e, (node, st))
            | Inr (space_target, level_change, left_right_change, new_parent, right_shift) \<Rightarrow>
                let st1 = create_space width space_target new_tree_id st;
                    st2 = st1\<lparr>table := move_tree_query level_change left_right_change
                                           new_tree_id left right tid (table st1)\<rparr>;
                    node' = set_parent new_parent
                              (set_attrs (\<lambda>a. a\<lparr>lft := left - left_right_change,
                                                  rght := right - left_right_change,
                                                  level := lvl - level_change,
                                                  tree_id := new_tree_id\<rparr>) node)
                in (case new_parent of
                      None \<Rightarrow> Inl (AttributeError ''NoneType'', (node', st2))
                    | Some p \<Rightarrow> Inr (node', st2))))"

subsection \<open>\<^verbatim>\<open>insert_node\<close>, \<^verbatim>\<open>_move_node\<close> and \<^verbatim>\<open>move_node\<close>\<close>

text \<open>
  \<^verbatim>\<open>node.pk and not allow_existing_pk and self.filter(pk=node.pk).exists()\<close>: a primary
  key is true in a condition when it is neither \<^verbatim>\<open>None\<close> nor 0.
\<close>

definition pk_exists :: "node list \<Rightarrow> int option \<Rightarrow> bool" where
  "pk_exists rows k = list_ex (\<lambda>r. pk r = k) rows"

definition new_root_attrs :: "int \<Rightarrow> obj \<Rightarrow> obj" where
  "new_root_attrs tid node =
     set_parent None (set_attrs (\<lambda>a. a\<lparr>lft := 1, rght := 2, level := 0, tree_id := tid\<rparr>) node)"

definition save_if :: "model_methods \<Rightarrow> bool \<Rightarrow> obj \<times> mptt_state \<Rightarrow> (obj \<times> mptt_state) outcome" where
  "save_if mm sv r = (if sv then save mm (fst r) (snd r) else Inr r)"

definition insert_node ::
  "model_methods \<Rightarrow> mptt_meta \<Rightarrow> obj \<Rightarrow> obj option \<Rightarrow> string \<Rightarrow> bool \<Rightarrow> bool \<Rightarrow> bool
     \<Rightarrow> mptt_state \<Rightarrow> (obj \<times> mptt_state) outcome" where
  "insert_node mm meta node target position sv allow_existing_pk refresh_target st =
     (if pk (attrs node) \<noteq> None \<and> pk (attrs node) \<noteq> Some 0 \<and> \<not> allow_existing_pk
         \<and> pk_exists (table st) (pk (attrs node))
      then Inl (ValueError ''Cannot insert a node which has already been saved.'', (node, st))
      else
        (case target of
           None \<Rightarrow>
             (let (tid, st1) = get_next_tree_id meta st
              in save_if mm sv (new_root_attrs tid node, st1))
         | Some target0 \<Rightarrow>
             if is_root_node target0 \<and> (position = ''left'' \<or> position = ''right'') then
               (let target1 = (if refresh_target then mptt_refresh mm st target0 else target0);
                    target_tree_id = tree_id (attrs target1);
                    (tid, space_target, st1) =
                      (if position = ''left'' then
                         (if root_node_ordering meta then (target_tree_id, target_tree_id - 1, st)
                          else (let (g, st') = get_next_tree_id meta st
                                in (target_tree_id, g, st')))
                       else
                         (if root_node_ordering meta then (target_tree_id + 1, target_tree_id, st)
                          else (let (g, st') = get_next_tree_id meta st
                                in (g, target_tree_id, st'))));
                    st2 = (if root_node_ordering meta then create_tree_space space_target 1 st1
                           else st1)
                in save_if mm sv (new_root_attrs tid node, st2))
             else
               (let node1 = set_attrs (\<lambda>a. a\<lparr>lft := 0, level := 0\<rparr>) node;
                    target1 = (if refresh_target then mptt_refresh mm st target0 else target0)
                in case calculate_inter_tree_move_values mm (table st) node1 target1 position of
                     Inl e \<Rightarrow> Inl (e, (node1, st))
                   | Inr (space_target, lvl, left, new_parent, right_shift) \<Rightarrow>
                       let tid = tree_id (attrs target1);
                           st1 = create_space 2 space_target tid st;
                           node2 = set_parent new_parent
                                     (set_attrs (\<lambda>a. a\<lparr>lft := - left, rght := - left + 1,
                                                         level := - lvl, tree_id := tid\<rparr>) node1)
                       in (case new_parent of
                             None \<Rightarrow> save_if mm sv (node2, st1)
                           | Some p \<Rightarrow>
                               (case post_insert_update_cached_parent_right p right_shift [] of
                                  Inl (e, p') \<Rightarrow> Inl (e, (set_parent (Some p') node2, st1))
                                | Inr p' \<Rightarrow> save_if mm sv (set_parent (Some p') node2, st1))))))"

text \<open>
  \<^verbatim>\<open>_move_node\<close> (here \<open>private_move_node\<close>, the name \<open>move_node\<close> being the public
  method's) and \<^verbatim>\<open>move_node\<close>, which saves the node after the move; the
  \<^verbatim>\<open>node_moved\<close> signal it then sends does not touch the state.
\<close>

definition private_move_node ::
  "model_methods \<Rightarrow> mptt_meta \<Rightarrow> obj \<Rightarrow> obj option \<Rightarrow> string \<Rightarrow> bool \<Rightarrow> bool
     \<Rightarrow> mptt_state \<Rightarrow> (obj \<times> mptt_state) outcome" where
  "private_move_node mm meta node target position sv refresh_target st =
     (if mptt_is_tracking st
      then insert_node mm meta node target position sv True refresh_target st
      else
        (case target of
           None \<Rightarrow>
             if is_child_node node then Inr (make_child_root_node meta node None st)
             else Inr (node, st)
         | Some target0 \<Rightarrow>
             if is_root_node target0 \<and> (position = ''left'' \<or> position = ''right'')
             then make_sibling_of_root_node mm meta node target0 position st
             else if is_root_node node
             then move_root_node mm node target0 position st
             else move_child_node mm node target0 position st))"

definition move_node ::
  "model_methods \<Rightarrow> mptt_meta \<Rightarrow> obj \<Rightarrow> obj option \<Rightarrow> string \<Rightarrow> mptt_state
     \<Rightarrow> (obj \<times> mptt_state) outcome" where
  "move_node mm meta node target position st =
     (case private_move_node mm meta node target position True True st of
        Inl e \<Rightarrow> Inl e
      | Inr (node', st') \<Rightarrow> save mm node' st')"

subsection \<open>RebuildEngine\<close>

text \<open>
  The manager's querysets come out of \<^verbatim>\<open>get_queryset\<close> ordered by
  \<open>(tree_id, left)\<close>; \<^verbatim>\<open>order_by(*order_insertion_by)\<close> replaces that order by the
  declared sort fields. SQL leaves the order of rows with equal sort values open; the
  embedding keeps them in storage order (a stable sort of the table).

  The keyword filters of \<^verbatim>\<open>rebuild(**filters)\<close> are a tree id, which
  \<^verbatim>\<open>filters.get("tree_id", 1)\<close> also reads as the first tree id to assign, and any
  other condition on a row.
\<close>

record rebuild_filters =
  filter_tree_id :: "int option"
  filter_other :: "node \<Rightarrow> bool"

definition no_filters :: rebuild_filters where
  "no_filters = \<lparr>filter_tree_id = None, filter_other = (\<lambda>r. True)\<rparr>"





text \<open>
  \<^verbatim>\<open>_rebuild_helper\<close> recurses through the children dictionary, which may be cyclic
  when the table is not a forest, so the embedding bounds the depth of the recursion: the
  first argument is the depth still allowed, and \<open>None\<close> means that it was used up. The
  accumulator is \<^verbatim>\<open>nodes_to_update\<close>; the result is the returned cursor and the
  accumulator.
\<close>

fun rebuild_helper ::
  "nat \<Rightarrow> (int option \<Rightarrow> node list) \<Rightarrow> node \<Rightarrow> int \<Rightarrow> int \<Rightarrow> int \<Rightarrow> node list
     \<Rightarrow> (int \<times> node list) option"
and rebuild_children ::
  "nat \<Rightarrow> (int option \<Rightarrow> node list) \<Rightarrow> node list \<Rightarrow> int \<Rightarrow> int \<Rightarrow> int \<Rightarrow> node list
     \<Rightarrow> (int \<times> node list) option" where
  "rebuild_helper 0 children node left tid lvl nodes_to_update = None"
| "rebuild_helper (Suc d) children node left tid lvl nodes_to_update =
     (case rebuild_children d children (children (pk node)) (left + 1) tid (lvl + 1)
             nodes_to_update of
        None \<Rightarrow> None
      | Some (right, acc) \<Rightarrow>
          Some (right + 1,
                acc @ [node\<lparr>lft := left, rght := right, level := lvl, tree_id := tid\<rparr>]))"
| "rebuild_children d children [] right tid lvl nodes_to_update = Some (right, nodes_to_update)"
| "rebuild_children d children (child # rest) right tid lvl nodes_to_update =
     (case rebuild_helper d children child right tid lvl nodes_to_update of
        None \<Rightarrow> None
      | Some (right', acc) \<Rightarrow> rebuild_children d children rest right' tid lvl acc)"







subsection \<open>UpdateTracker\<close>




subsection \<open>BulkTreeBuilder\<close>

text \<open>
  The nested description: the fields given for a node (the dictionary without its
  \<^verbatim>\<open>children\<close> entry, from which \<^verbatim>\<open>self.model(**data)\<close> makes the object), and the
  descriptions of its children. \<^verbatim>\<open>treeify\<close> appends the object to \<^verbatim>\<open>stack\<close> before
  it descends and sets its right value afterwards: the objects come out in pre-order,
  complete. The result of \<open>treeify\<close> is the returned cursor and the objects of the
  subtree.
\<close>

datatype tree_data = TreeData (fields: node) (children_data: "tree_data list")

fun treeify :: "int \<Rightarrow> tree_data \<Rightarrow> int \<Rightarrow> int \<Rightarrow> int \<times> node list"
and treeify_children :: "int \<Rightarrow> tree_data list \<Rightarrow> int \<Rightarrow> int \<Rightarrow> int \<times> node list" where
  "treeify tid (TreeData d cs) cursor lvl =
     (case treeify_children tid cs cursor (lvl + 1) of
        (cursor', below) \<Rightarrow>
          (cursor' + 1,
           d\<lparr>tree_id := tid, level := lvl, lft := cursor, rght := cursor' + 1\<rparr> # below))"
| "treeify_children tid [] cursor lvl = (cursor, [])"
| "treeify_children tid (c # cs) cursor lvl =
     (case treeify tid c (cursor + 1) lvl of
        (cursor', first) \<Rightarrow>
          (case treeify_children tid cs cursor' lvl of
             (cursor'', others) \<Rightarrow> (cursor'', first @ others)))"

definition build_tree_nodes ::
  "mptt_meta \<Rightarrow> tree_data \<Rightarrow> obj option \<Rightarrow> string \<Rightarrow> mptt_state \<Rightarrow> node list \<times> mptt_state" where
  "build_tree_nodes meta data target position st =
     (case target of
        Some t \<Rightarrow>
          (let tid = tree_id (attrs t);
               lvl = (if position = ''left'' \<or> position = ''right'' then level (attrs t)
                      else level (attrs t) + 1);
               cursor = (if position = ''left'' \<or> position = ''right''
                         then (if position = ''left'' then lft (attrs t) else rght (attrs t) + 1)
                         else (if position = ''first-child'' then lft (attrs t) + 1
                               else rght (attrs t)));
               stack = snd (treeify tid data cursor lvl)
           in (stack, create_space (2 * int (length stack)) (cursor - 1) tid st))
      | None \<Rightarrow>
          (let (tid, st1) = get_next_tree_id meta st
           in (snd (treeify tid data 1 0), st1)))"

text \<open>
  Modelled from the spec: \<^verbatim>\<open>bulk_create\<close> is the storage adapter's operation (6); it
  stores the given records as new rows.
\<close>

definition bulk_create :: "node list \<Rightarrow> mptt_state \<Rightarrow> mptt_state" where
  "bulk_create records st = st\<lparr>table := table st @ records\<rparr>"

subsection \<open>Model methods for the examples\<close>

text \<open>
  Modelled from the spec: the methods of the model class are not part of the sources. For
  the concrete examples they are taken as the specification describes the data:
  \<^verbatim>\<open>get_descendant_count\<close> from "right - left equals 2 * (descendant count) + 1" (3),
  \<^verbatim>\<open>_mptt_refresh\<close> as \<^verbatim>\<open>read_attributes\<close> (6), which reloads the tree fields of a
  stored node, the sibling of a root as the root of the neighbouring tree id (4.2, case 2),
  and \<^verbatim>\<open>save\<close> as writing the object into its row.
\<close>

definition read_attributes :: "mptt_state \<Rightarrow> obj \<Rightarrow> obj" where
  "read_attributes st n =
     (case find (\<lambda>r. pk r = pk (attrs n) \<and> pk r \<noteq> None) (table st) of
        None \<Rightarrow> n
      | Some r \<Rightarrow> set_attrs (\<lambda>a. a\<lparr>lft := lft r, rght := rght r, level := level r,
                                      tree_id := tree_id r\<rparr>) n)"

definition root_with_tree_id :: "mptt_state \<Rightarrow> int \<Rightarrow> obj option" where
  "root_with_tree_id st tid =
     map_option (\<lambda>r. Obj r None) (find (\<lambda>r. parent r = None \<and> tree_id r = tid) (table st))"

definition write_row :: "obj \<Rightarrow> mptt_state \<Rightarrow> (obj \<times> mptt_state) outcome" where
  "write_row n st =
     Inr (n, st\<lparr>table := map (\<lambda>r. if pk r = pk (attrs n) then attrs n else r) (table st)\<rparr>)"

definition stored_methods :: model_methods where
  "stored_methods =
     \<lparr>get_descendant_count = (\<lambda>n. (rght (attrs n) - lft (attrs n) - 1) div 2),
      get_previous_sibling = (\<lambda>st t. root_with_tree_id st (tree_id (attrs t) - 1)),
      get_next_sibling = (\<lambda>st t. root_with_tree_id st (tree_id (attrs t) + 1)),
      mptt_refresh = read_attributes,
      save = write_row\<rparr>"

definition ordered_meta :: mptt_meta where
  "ordered_meta =
     \<lparr>root_node_ordering = True, order_insertion_by = False, is_abstract = False,
      is_proxy = False, owns_tree_fields = True,
      uuid4 = (\<lambda>n. 1000 + int n), tree_id_default = (\<lambda>n. 1000 + int n)\<rparr>"

definition generated_meta :: mptt_meta where
  "generated_meta = ordered_meta\<lparr>root_node_ordering := False\<rparr>"

subsection \<open>The scenario of the specification (8)\<close>

text \<open>
  Tree 1 is the root A (1, 6) with the children B (2, 3) and C (4, 5); tree 2 is the single
  root D (1, 2).
\<close>

definition scenario_A :: node where
  "scenario_A = \<lparr>pk = Some 1, parent = None, lft = 1, rght = 6, level = 0, tree_id = 1, okey = 0\<rparr>"

definition scenario_B :: node where
  "scenario_B = \<lparr>pk = Some 2, parent = Some 1, lft = 2, rght = 3, level = 1, tree_id = 1, okey = 0\<rparr>"

definition scenario_C :: node where
  "scenario_C = \<lparr>pk = Some 3, parent = Some 1, lft = 4, rght = 5, level = 1, tree_id = 1, okey = 0\<rparr>"

definition scenario_D :: node where
  "scenario_D = \<lparr>pk = Some 4, parent = None, lft = 1, rght = 2, level = 0, tree_id = 2, okey = 0\<rparr>"

definition scenario :: mptt_state where
  "scenario = \<lparr>table = [scenario_A, scenario_B, scenario_C, scenario_D],
               mptt_updates_enabled = True, mptt_tracking = None, drawn = 0,
               rebuild_calls = []\<rparr>"







text \<open>The position vocabulary (6).\<close>

definition valid_position :: "string \<Rightarrow> bool" where
  "valid_position position =
     (position = ''first-child'' \<or> position = ''last-child''
      \<or> position = ''left'' \<or> position = ''right'')"

section \<open>The claims\<close>

subsection \<open>Claims about the SpaceManager\<close>

lemma space_query_row:
  "(if tree_id r = tid \<and> (lft r > target \<or> rght r > target)
    then r\<lparr>lft := (if lft r > target then lft r + sz else lft r),
           rght := (if rght r > target then rght r + sz else rght r)\<rparr>
    else r) = spec_shift sz target tid r"
  by (cases r) (simp add: spec_shift_def)

lemma space_query_spec: "space_query sz target tid rows = map (spec_shift sz target tid) rows"
  unfolding space_query_def by (simp only: space_query_row)

text \<open>
  C2. Outside a tracking scope, \<open>create_space sz target tid\<close> rewrites the table row by
  row as the specification says (left values above \<open>target\<close> in tree \<open>tid\<close> grow by
  \<open>sz\<close>, right values above \<open>target\<close> grow by \<open>sz\<close>, every other field, every
  other row and every other tree stay as they are, as does the rest of the state), and
  \<open>close_gap sz target tid\<close> is the same update with \<open>- sz\<close>.
\<close>

theorem create_space_close_gap_shift:
  assumes "\<not> mptt_is_tracking st"
  shows "create_space sz target tid st
           = st\<lparr>table := map (spec_shift sz target tid) (table st)\<rparr>
       \<and> close_gap sz target tid st
           = st\<lparr>table := map (spec_shift (- sz) target tid) (table st)\<rparr>"
  using assms
  by (simp add: create_space_def close_gap_def manage_space_def space_query_spec)

theorem create_space_close_gap_shift_witness:
  "create_space 2 1
     2 \<lparr>table = [\<lparr>pk = Some 4, parent = None, lft = 1, rght = 2, level = 0, tree_id = 2, okey = 0\<rparr>,
                 \<lparr>pk = Some 1, parent = None, lft = 1, rght = 6, level = 0, tree_id = 1, okey = 0\<rparr>],
        mptt_updates_enabled = True, mptt_tracking = None, drawn = 0, rebuild_calls = []\<rparr>
   = \<lparr>table = [\<lparr>pk = Some 4, parent = None, lft = 1, rght = 4, level = 0, tree_id = 2, okey = 0\<rparr>,
               \<lparr>pk = Some 1, parent = None, lft = 1, rght = 6, level = 0, tree_id = 1, okey = 0\<rparr>],
      mptt_updates_enabled = True, mptt_tracking = None, drawn = 0, rebuild_calls = []\<rparr>"
  using create_space_close_gap_shift
    [of "\<lparr>table = [\<lparr>pk = Some 4, parent = None, lft = 1, rght = 2, level = 0, tree_id = 2, okey = 0\<rparr>,
                    \<lparr>pk = Some 1, parent = None, lft = 1, rght = 6, level = 0, tree_id = 1, okey = 0\<rparr>],
           mptt_updates_enabled = True, mptt_tracking = None, drawn = 0, rebuild_calls = []\<rparr>" 2 1 2]
  by (simp add: mptt_is_tracking_def spec_shift_def)

subsection \<open>Claims about the MoveEngine\<close>

lemmas scenario_defs =
  scenario_def scenario_A_def scenario_B_def scenario_C_def scenario_D_def

lemmas move_to_new_tree_defs =
  private_move_node_def mptt_is_tracking_def is_root_node_def move_child_node_def
  move_child_to_new_tree_def calculate_inter_tree_move_values_def Let_def create_space_def
  manage_space_def space_query_def inter_tree_move_and_close_gap_def set_parent_def
  set_attrs_def

text \<open>
  C1. The scenario of the specification, outside a tracking scope: moving C to be the
  first child of D returns normally; in the table D's right value has become 4, the row of
  C has left 2, right 3, level 1 and tree id 2, A's right value has become 4 and B is
  untouched; the node object C carries the same four values and has D as its parent. The
  foreign key in C's row is what \<open>move_node\<close> then has \<^verbatim>\<open>node.save()\<close> write from
  that object.
\<close>

theorem move_child_to_first_child_of_other_root:
  "private_move_node mm meta (Obj scenario_C None) (Some (Obj scenario_D None))
       ''first-child'' sv refresh_target scenario
     = Inr (Obj (scenario_C\<lparr>parent := Some 4, lft := 2, rght := 3, level := 1, tree_id := 2\<rparr>)
               (Some (Obj scenario_D None)),
            scenario\<lparr>table := [scenario_A\<lparr>rght := 4\<rparr>,
                                scenario_B,
                                scenario_C\<lparr>lft := 2, rght := 3, level := 1, tree_id := 2\<rparr>,
                                scenario_D\<lparr>rght := 4\<rparr>]\<rparr>)
   \<and> move_node mm meta (Obj scenario_C None) (Some (Obj scenario_D None)) ''first-child''
       scenario
     = save mm (Obj (scenario_C\<lparr>parent := Some 4, lft := 2, rght := 3, level := 1,
                                tree_id := 2\<rparr>)
                    (Some (Obj scenario_D None)))
         (scenario\<lparr>table := [scenario_A\<lparr>rght := 4\<rparr>,
                                scenario_B,
                                scenario_C\<lparr>lft := 2, rght := 3, level := 1, tree_id := 2\<rparr>,
                                scenario_D\<lparr>rght := 4\<rparr>]\<rparr>)"
  by (simp add: move_node_def move_to_new_tree_defs scenario_defs)

subsection \<open>Claims about the RebuildEngine\<close>





subsection \<open>Claims about the UpdateTracker\<close>







subsection \<open>Claims about \<^verbatim>\<open>insert_node\<close>\<close>







subsection \<open>Claims about the position token\<close>






subsection \<open>Claims about moves into the own subtree\<close>

lemma obj_eq_refl: "obj_eq n n"
  by (simp add: obj_eq_def split: option.splits)

text \<open>
  C5, as amended. Outside a tracking scope, for each of the four positions: when the target
  is the node itself, or lies in the node's tree with its left value strictly between the
  node's left and right values, \<open>_move_node\<close> raises \<^verbatim>\<open>InvalidMove\<close> and the node
  object and the whole state are as they were. The tree is taken to be numbered as the data
  model says: a root's left value is not above that of any node of its tree, so that a root
  is inside no other node's interval.
\<close>

theorem invalid_move_raises:
  assumes nt: "\<not> mptt_is_tracking st"
    and pos: "valid_position position"
    and inside: "t = node
       \<or> (tree_id (attrs t) = tree_id (attrs node)
           \<and> lft (attrs node) < lft (attrs t) \<and> lft (attrs t) < rght (attrs node))"
    and root: "is_root_node t \<longrightarrow> lft (attrs t) \<le> lft (attrs node)"
  shows "\<exists>msg. private_move_node mm meta node (Some t) position sv refresh_target st
                 = Inl (InvalidMove msg, (node, st))"
proof (cases "is_root_node t \<and> (position = ''left'' \<or> position = ''right'')")
  case sibling: True
  with inside root have "t = node" by auto
  then have "obj_eq node t" by (simp add: obj_eq_refl)
  with nt show ?thesis
    by (simp add: private_move_node_def sibling make_sibling_of_root_node_def)
next
  case other: False
  from inside have same_tree: "tree_id (attrs node) = tree_id (attrs t)" by auto
  show ?thesis
  proof (cases "is_root_node node")
    case True
    with nt same_tree show ?thesis
      by (simp add: private_move_node_def other move_root_node_def Let_def)
  next
    case False
    from inside have bad: "obj_eq node t
        \<or> (lft (attrs node) < lft (attrs t) \<and> lft (attrs t) < rght (attrs node))"
      by (auto simp: obj_eq_refl)
    from pos consider "position = ''last-child'' \<or> position = ''first-child''"
      | "position \<noteq> ''last-child''" "position \<noteq> ''first-child''"
        "position = ''left'' \<or> position = ''right''"
      by (auto simp: valid_position_def)
    then have "\<exists>msg. move_child_within_tree node t position st
                   = Inl (InvalidMove msg, (node, st))"
    proof cases
      case 1
      show ?thesis
      proof (cases "obj_eq node t")
        case True
        then show ?thesis
          by (simp add: move_child_within_tree_def Let_def 1)
      next
        case False
        with bad have "lft (attrs node) < lft (attrs t) \<and> lft (attrs t) < rght (attrs node)"
          by simp
        with False show ?thesis
          by (simp add: move_child_within_tree_def Let_def 1)
      qed
    next
      case 2
      show ?thesis
      proof (cases "obj_eq node t")
        case True
        then show ?thesis
          by (simp add: move_child_within_tree_def Let_def 2)
      next
        case False
        with bad have "lft (attrs node) < lft (attrs t) \<and> lft (attrs t) < rght (attrs node)"
          by simp
        with False show ?thesis
          by (simp add: move_child_within_tree_def Let_def 2)
      qed
    qed
    with nt same_tree False show ?thesis
      by (simp add: private_move_node_def other move_child_node_def)
  qed
qed

theorem invalid_move_raises_witness:
  "\<not> mptt_is_tracking scenario \<and> valid_position ''first-child''
   \<and> lft scenario_A < lft scenario_B \<and> lft scenario_B < rght scenario_A
   \<and> (\<exists>msg. private_move_node stored_methods ordered_meta (Obj scenario_A None)
                (Some (Obj scenario_B None)) ''first-child'' True True scenario
              = Inl (InvalidMove msg, (Obj scenario_A None, scenario)))"
  using invalid_move_raises [of scenario "''first-child''" "Obj scenario_B None"
          "Obj scenario_A None" stored_methods ordered_meta True True]
  by (simp add: mptt_is_tracking_def valid_position_def is_root_node_def scenario_defs)

text \<open>
  C5 as stated fails inside a tracking scope, where \<open>_move_node\<close> hands the move to
  \<open>insert_node\<close>, which has none of these checks: moving the root A to be the first
  child of its own child B returns normally, with A's object renumbered below B and the
  tree recorded for a later rebuild.
\<close>

theorem invalid_move_counterexample:
  "mptt_is_tracking (scenario\<lparr>mptt_tracking := Some []\<rparr>)
   \<and> lft scenario_A < lft scenario_B \<and> lft scenario_B < rght scenario_A
   \<and> private_move_node stored_methods ordered_meta (Obj scenario_A None)
        (Some (Obj scenario_B None)) ''first-child'' False True
        (scenario\<lparr>mptt_tracking := Some []\<rparr>)
      = Inr (Obj (scenario_A\<lparr>parent := Some 2, lft := 3, rght := 4, level := 2\<rparr>)
                (Some (Obj (scenario_B\<lparr>rght := 9\<rparr>) None)),
             scenario\<lparr>mptt_tracking := Some [1]\<rparr>)"
  by (simp add: private_move_node_def mptt_is_tracking_def is_root_node_def
        set_parent_def set_attrs_def Let_def ordered_meta_def scenario_defs insert_node_def
        calculate_inter_tree_move_values_def stored_methods_def read_attributes_def
        create_space_def manage_space_def mptt_track_tree_modified_def save_if_def obj_eq_def)

subsection \<open>Claims about moves to the current place\<close>

lemma move_subtree_query_same_place:
  "move_subtree_query l r 0 0 l r g tid rows = rows"
  unfolding move_subtree_query_def
  by (rule map_idI) simp

lemma set_attrs_same:
  "l = lft (attrs n) \<Longrightarrow> r = rght (attrs n) \<Longrightarrow> v = level (attrs n) \<Longrightarrow>
     set_attrs (\<lambda>a. a\<lparr>lft := l, rght := r, level := v\<rparr>) n = n"
  by (cases n) (simp add: set_attrs_def)

lemma within_tree_same_place:
  assumes "\<not> obj_eq node t"
    and "\<not> (lft (attrs node) < lft (attrs t) \<and> lft (attrs t) < rght (attrs node))"
  shows
   "position = ''last-child'' \<Longrightarrow> rght (attrs t) = rght (attrs node) + 1 \<Longrightarrow>
    level (attrs node) = level (attrs t) + 1 \<Longrightarrow>
      move_child_within_tree node t position st = Inr (set_parent (Some t) node, st)"
   "position = ''first-child'' \<Longrightarrow> lft (attrs node) = lft (attrs t) + 1 \<Longrightarrow>
    level (attrs node) = level (attrs t) + 1 \<Longrightarrow>
      move_child_within_tree node t position st = Inr (set_parent (Some t) node, st)"
   "position = ''left'' \<Longrightarrow> lft (attrs t) = rght (attrs node) + 1 \<Longrightarrow>
    lft (attrs node) < rght (attrs node) \<Longrightarrow> level (attrs node) = level (attrs t) \<Longrightarrow>
    get_parent (table st) t = Some p \<Longrightarrow>
      move_child_within_tree node t position st = Inr (set_parent (Some p) node, st)"
   "position = ''right'' \<Longrightarrow> lft (attrs node) = rght (attrs t) + 1 \<Longrightarrow>
    lft (attrs node) < rght (attrs node) \<Longrightarrow> level (attrs node) = level (attrs t) \<Longrightarrow>
    get_parent (table st) t = Some p \<Longrightarrow>
      move_child_within_tree node t position st = Inr (set_parent (Some p) node, st)"
  using assms
  by (simp_all add: move_child_within_tree_def Let_def move_subtree_query_same_place
        set_attrs_same)

text \<open>
  C6, as amended. Outside a tracking scope, \<open>_move_node\<close> to the place where the node
  already is returns normally and writes nothing: the whole state is as it was, and the
  node object keeps its left, right, level and tree id (a child's object gets the parent
  object attached). The places, read off the tree values:
  \<^item> last child of \<open>t\<close>, when the node ends just before \<open>t\<close>'s right value, one level
    below \<open>t\<close>; first child of \<open>t\<close>, when it starts just after \<open>t\<close>'s left value;
  \<^item> left of \<open>t\<close>, when \<open>t\<close> is the node's right neighbour on its level; right of
    \<open>t\<close>, when \<open>t\<close> is its left neighbour;
  \<^item> for a root: left of the root \<open>t\<close> of a later tree whose previous sibling is the
    node, and right of the root \<open>t\<close> of an earlier tree whose next sibling is the node.
\<close>

theorem move_to_current_place:
  assumes nt: "\<not> mptt_is_tracking st" and ne: "\<not> obj_eq node t"
  shows
   "(is_child_node node \<and> tree_id (attrs node) = tree_id (attrs t)
       \<and> lft (attrs t) < lft (attrs node) \<and> rght (attrs t) = rght (attrs node) + 1
       \<and> level (attrs node) = level (attrs t) + 1
     \<longrightarrow> private_move_node mm meta node (Some t) ''last-child'' sv refresh_target st
           = Inr (set_parent (Some t) node, st))
    \<and> (is_child_node node \<and> tree_id (attrs node) = tree_id (attrs t)
       \<and> lft (attrs node) = lft (attrs t) + 1
       \<and> level (attrs node) = level (attrs t) + 1
     \<longrightarrow> private_move_node mm meta node (Some t) ''first-child'' sv refresh_target st
           = Inr (set_parent (Some t) node, st))
    \<and> (is_child_node node \<and> is_child_node t \<and> tree_id (attrs node) = tree_id (attrs t)
       \<and> lft (attrs t) = rght (attrs node) + 1 \<and> lft (attrs node) < rght (attrs node)
       \<and> level (attrs node) = level (attrs t) \<and> get_parent (table st) t = Some p
     \<longrightarrow> private_move_node mm meta node (Some t) ''left'' sv refresh_target st
           = Inr (set_parent (Some p) node, st))
    \<and> (is_child_node node \<and> is_child_node t \<and> tree_id (attrs node) = tree_id (attrs t)
       \<and> lft (attrs node) = rght (attrs t) + 1 \<and> lft (attrs t) < rght (attrs t)
       \<and> lft (attrs node) < rght (attrs node)
       \<and> level (attrs node) = level (attrs t) \<and> get_parent (table st) t = Some p
     \<longrightarrow> private_move_node mm meta node (Some t) ''right'' sv refresh_target st
           = Inr (set_parent (Some p) node, st))
    \<and> (is_root_node node \<and> is_root_node t \<and> tree_id (attrs node) < tree_id (attrs t)
       \<and> get_previous_sibling mm st t = Some s \<and> obj_eq node s
     \<longrightarrow> private_move_node mm meta node (Some t) ''left'' sv refresh_target st
           = Inr (node, st))
    \<and> (is_root_node node \<and> is_root_node t \<and> tree_id (attrs t) \<le> tree_id (attrs node)
       \<and> get_next_sibling mm st t = Some s \<and> obj_eq node s
     \<longrightarrow> private_move_node mm meta node (Some t) ''right'' sv refresh_target st
           = Inr (node, st))
    \<and> (\<forall>q. lft (attrs (set_parent q node)) = lft (attrs node)
           \<and> rght (attrs (set_parent q node)) = rght (attrs node)
           \<and> level (attrs (set_parent q node)) = level (attrs node)
           \<and> tree_id (attrs (set_parent q node)) = tree_id (attrs node))"
proof (intro conjI impI allI)
  assume a: "is_child_node node \<and> tree_id (attrs node) = tree_id (attrs t)
       \<and> lft (attrs t) < lft (attrs node) \<and> rght (attrs t) = rght (attrs node) + 1
       \<and> level (attrs node) = level (attrs t) + 1"
  then have "move_child_within_tree node t ''last-child'' st = Inr (set_parent (Some t) node, st)"
    using within_tree_same_place(1) [OF ne, of "''last-child''" st] by simp
  with a nt show "private_move_node mm meta node (Some t) ''last-child'' sv refresh_target st
           = Inr (set_parent (Some t) node, st)"
    by (simp add: private_move_node_def is_child_node_def move_child_node_def)
next
  assume a: "is_child_node node \<and> tree_id (attrs node) = tree_id (attrs t)
       \<and> lft (attrs node) = lft (attrs t) + 1
       \<and> level (attrs node) = level (attrs t) + 1"
  then have "move_child_within_tree node t ''first-child'' st = Inr (set_parent (Some t) node, st)"
    using within_tree_same_place(2) [OF ne, of "''first-child''" st] by simp
  with a nt show "private_move_node mm meta node (Some t) ''first-child'' sv refresh_target st
           = Inr (set_parent (Some t) node, st)"
    by (simp add: private_move_node_def is_child_node_def move_child_node_def)
next
  assume a: "is_child_node node \<and> is_child_node t \<and> tree_id (attrs node) = tree_id (attrs t)
       \<and> lft (attrs t) = rght (attrs node) + 1 \<and> lft (attrs node) < rght (attrs node)
       \<and> level (attrs node) = level (attrs t) \<and> get_parent (table st) t = Some p"
  then have "move_child_within_tree node t ''left'' st = Inr (set_parent (Some p) node, st)"
    using within_tree_same_place(3) [OF ne, of "''left''" st p] by simp
  with a nt show "private_move_node mm meta node (Some t) ''left'' sv refresh_target st
           = Inr (set_parent (Some p) node, st)"
    by (simp add: private_move_node_def is_child_node_def move_child_node_def)
next
  assume a: "is_child_node node \<and> is_child_node t \<and> tree_id (attrs node) = tree_id (attrs t)
       \<and> lft (attrs node) = rght (attrs t) + 1 \<and> lft (attrs t) < rght (attrs t)
       \<and> lft (attrs node) < rght (attrs node)
       \<and> level (attrs node) = level (attrs t) \<and> get_parent (table st) t = Some p"
  then have "move_child_within_tree node t ''right'' st = Inr (set_parent (Some p) node, st)"
    using within_tree_same_place(4) [OF ne, of "''right''" st p] by simp
  with a nt show "private_move_node mm meta node (Some t) ''right'' sv refresh_target st
           = Inr (set_parent (Some p) node, st)"
    by (simp add: private_move_node_def is_child_node_def move_child_node_def)
next
  assume "is_root_node node \<and> is_root_node t \<and> tree_id (attrs node) < tree_id (attrs t)
       \<and> get_previous_sibling mm st t = Some s \<and> obj_eq node s"
  with nt ne show "private_move_node mm meta node (Some t) ''left'' sv refresh_target st
           = Inr (node, st)"
    by (simp add: private_move_node_def make_sibling_of_root_node_def is_child_node_def Let_def)
next
  assume "is_root_node node \<and> is_root_node t \<and> tree_id (attrs t) \<le> tree_id (attrs node)
       \<and> get_next_sibling mm st t = Some s \<and> obj_eq node s"
  with nt ne show "private_move_node mm meta node (Some t) ''right'' sv refresh_target st
           = Inr (node, st)"
    by (simp add: private_move_node_def make_sibling_of_root_node_def is_child_node_def Let_def)
qed (simp_all add: set_parent_def)

theorem move_to_current_place_witness:
  "\<not> mptt_is_tracking scenario
   \<and> private_move_node stored_methods ordered_meta (Obj scenario_C None)
        (Some (Obj scenario_A None)) ''last-child'' True True scenario
      = Inr (Obj scenario_C (Some (Obj scenario_A None)), scenario)
   \<and> private_move_node stored_methods ordered_meta (Obj scenario_A None)
        (Some (Obj scenario_D None)) ''left'' True True scenario
      = Inr (Obj scenario_A None, scenario)"
  using move_to_current_place [of scenario "Obj scenario_C None" "Obj scenario_A None"
          stored_methods ordered_meta True True]
        move_to_current_place [of scenario "Obj scenario_A None" "Obj scenario_D None"
          stored_methods ordered_meta True True "Obj scenario_A None" "Obj scenario_A None"]
  by (simp add: mptt_is_tracking_def obj_eq_def is_child_node_def is_root_node_def
        set_parent_def stored_methods_def root_with_tree_id_def scenario_defs)

text \<open>
  C6 as stated fails on its own first example and inside a tracking scope. Placing the
  root D immediately left of its current left sibling A is a real move: the two trees
  swap their tree ids. And inside a tracking scope, moving C to be the last child of A,
  which it is, renumbers the object of C at the end of A's stale interval.
\<close>

theorem move_to_current_place_counterexample:
  "private_move_node stored_methods ordered_meta (Obj scenario_D None)
       (Some (Obj scenario_A None)) ''left'' True True scenario
     = Inr (Obj (scenario_D\<lparr>tree_id := 1\<rparr>) None,
            scenario\<lparr>table := [scenario_A\<lparr>tree_id := 2\<rparr>, scenario_B\<lparr>tree_id := 2\<rparr>,
                                scenario_C\<lparr>tree_id := 2\<rparr>, scenario_D\<lparr>tree_id := 1\<rparr>]\<rparr>)
   \<and> private_move_node stored_methods ordered_meta (Obj scenario_C None)
        (Some (Obj scenario_A None)) ''last-child'' False True
        (scenario\<lparr>mptt_tracking := Some []\<rparr>)
     = Inr (Obj (scenario_C\<lparr>lft := 6, rght := 7\<rparr>) (Some (Obj (scenario_A\<lparr>rght := 12\<rparr>) None)),
            scenario\<lparr>mptt_tracking := Some [1]\<rparr>)"
  by (simp add: private_move_node_def mptt_is_tracking_def is_root_node_def is_child_node_def
        make_sibling_of_root_node_def root_sibling_query_def obj_eq_def
        set_parent_def set_attrs_def Let_def ordered_meta_def scenario_defs insert_node_def
        calculate_inter_tree_move_values_def stored_methods_def read_attributes_def
        create_space_def manage_space_def mptt_track_tree_modified_def save_if_def)

end
